theory Spec2Isabelle
  imports Main
begin

section \<open>JavaScript values\<close>

text \<open>
  The configuration objects handled by \<^verbatim>\<open>InitHelper\<close> are untyped (\<^verbatim>\<open>any\<close>), so their
  properties are JavaScript values. An object is a finite map from property names to
  values; a property that is absent reads as \<^verbatim>\<open>undefined\<close>, which is not the same as a
  property that is present with the value \<^verbatim>\<open>undefined\<close>. Numbers are kept as integers plus
  \<^verbatim>\<open>NaN\<close>: the code only ever tests them for truthiness.
\<close>

datatype jsval =
    JUndefined
  | JNull
  | JBool bool
  | JNum int
  | JNaN
  | JStr string
  | JObj "string \<Rightarrow> jsval option"

type_synonym jsobj = "string \<Rightarrow> jsval option"

text \<open>JavaScript's \<^verbatim>\<open>ToBoolean\<close>: what \<^verbatim>\<open>if (v)\<close>, \<^verbatim>\<open>!v\<close> and \<^verbatim>\<open>a && b\<close> test.\<close>

fun truthy :: "jsval \<Rightarrow> bool" where
  "truthy JUndefined = False"
| "truthy JNull = False"
| "truthy (JBool b) = b"
| "truthy (JNum n) = (n \<noteq> 0)"
| "truthy JNaN = False"
| "truthy (JStr s) = (s \<noteq> [])"
| "truthy (JObj m) = True"

text \<open>Reading the property \<^verbatim>\<open>obj.k\<close> of an object.\<close>

definition js_get :: "jsobj \<Rightarrow> string \<Rightarrow> jsval" where
  "js_get obj k = (case obj k of None \<Rightarrow> JUndefined | Some v \<Rightarrow> v)"

text \<open>
  \<^verbatim>\<open>objectAssign(target, ...sources)\<close> copies every own property of each source onto the
  target, left to right, so a later source overrides an earlier one. A property whose
  value is \<^verbatim>\<open>undefined\<close> is copied like any other.
\<close>

definition objectAssign :: "jsobj \<Rightarrow> jsobj list \<Rightarrow> jsobj" where
  "objectAssign target sources = foldl (++) target sources"

section \<open>Legacy config merger\<close>

text \<open>
  \<^verbatim>\<open>AppConfig\<close> is the server-provided configuration. Only the three fields read by
  \<^verbatim>\<open>getMergedLegacyConfig\<close> are kept; each may be \<^verbatim>\<open>undefined\<close>.
\<close>

record AppConfig =
  subdomain :: jsval
  safariWebId :: jsval
  cookieSyncEnabled :: jsval

definition getMergedLegacyConfig :: "jsobj \<Rightarrow> AppConfig \<Rightarrow> jsobj" where
  "getMergedLegacyConfig userConfig serverConfig =
     (let finalConfig = objectAssign [''path'' \<mapsto> JStr ''/'']
            [ [''subdomainName'' \<mapsto> subdomain serverConfig],
              [''safari_web_id'' \<mapsto> safariWebId serverConfig],
              [''cookieSyncEnabled'' \<mapsto> cookieSyncEnabled serverConfig],
              userConfig ]
      in if \<not> truthy (js_get userConfig ''subdomainName'')
         then finalConfig(''subdomainName'' := None)
         else finalConfig)"

section \<open>Option save\<close>

text \<open>
  Modelled from the spec: the Option Persistence Gateway (\<^verbatim>\<open>Database\<close>) is not part of this
  file. Its contract is \<^verbatim>\<open>put(table, record) -> ack\<close>: the record \<^verbatim>\<open>{key, value}\<close> is stored in
  the table under its key, replacing what was there.
\<close>

datatype db_put = Put (put_table: string) (put_key: string) (put_value: jsval)

type_synonym database = "string \<times> string \<Rightarrow> jsval option"

fun Database_put :: "db_put \<Rightarrow> database \<Rightarrow> database" where
  "Database_put (Put t k v) db = db((t, k) \<mapsto> v)"

text \<open>
  \<^verbatim>\<open>webhookOptions && webhookOptions[event]\<close>: the left operand when it is falsy, otherwise
  the property, which is \<^verbatim>\<open>undefined\<close> on anything that is not an object holding it.
\<close>

fun is_object :: "jsval \<Rightarrow> bool" where
  "is_object (JObj m) = True"
| "is_object v = False"

definition webhookOption :: "jsval \<Rightarrow> string \<Rightarrow> jsval" where
  "webhookOption webhookOptions event =
     (if truthy webhookOptions
      then (case webhookOptions of JObj m \<Rightarrow> js_get m event | _ \<Rightarrow> JUndefined)
      else webhookOptions)"

definition webhookEvents :: "string list" where
  "webhookEvents = [''notification.displayed'', ''notification.clicked'', ''notification.dismissed'']"

text \<open>
  \<^verbatim>\<open>saveInitOptions\<close> builds the list \<^verbatim>\<open>opPromises\<close> of writes, in the order the source pushes
  them; \<^verbatim>\<open>config\<close> is \<^verbatim>\<open>OneSignal.config\<close>.
\<close>

definition saveInitOptions :: "jsobj \<Rightarrow> db_put list" where
  "saveInitOptions config =
     [ if js_get config ''persistNotification'' = JBool False
       then Put ''Options'' ''persistNotification'' (JBool False)
       else if js_get config ''persistNotification'' = JBool True
            then Put ''Options'' ''persistNotification'' (JStr ''force'')
            else Put ''Options'' ''persistNotification'' (JBool True) ]
     @ map (\<lambda>event.
              if truthy (webhookOption (js_get config ''webhooks'') event)
              then Put ''Options'' (''webhooks.'' @ event)
                     (webhookOption (js_get config ''webhooks'') event)
              else Put ''Options'' (''webhooks.'' @ event) (JBool False))
           webhookEvents
     @ [ if truthy (webhookOption (js_get config ''webhooks'') ''cors'')
         then Put ''Options'' ''webhooks.cors'' (JBool True)
         else Put ''Options'' ''webhooks.cors'' (JBool False),
         if truthy (js_get config ''notificationClickHandlerMatch'')
         then Put ''Options'' ''notificationClickHandlerMatch''
                (js_get config ''notificationClickHandlerMatch'')
         else Put ''Options'' ''notificationClickHandlerMatch'' (JStr ''exact''),
         if truthy (js_get config ''notificationClickHandlerAction'')
         then Put ''Options'' ''notificationClickHandlerAction''
                (js_get config ''notificationClickHandlerAction'')
         else Put ''Options'' ''notificationClickHandlerAction'' (JStr ''navigate''),
         if js_get config ''serviceWorkerRefetchRequests'' = JBool False
         then Put ''Options'' ''serviceWorkerRefetchRequests'' (JBool False)
         else Put ''Options'' ''serviceWorkerRefetchRequests'' (JBool True) ]"

text \<open>
  \<^verbatim>\<open>Promise.all(opPromises)\<close>: every write of the batch is applied. The writes go to distinct
  keys (lemma \<open>saveInitOptions_keys\<close>), so the order in which they complete does not change
  the stored result.
\<close>

definition persist :: "db_put list \<Rightarrow> database \<Rightarrow> database" where
  "persist puts db = fold Database_put puts db"

section \<open>Session state, environment and effects\<close>

text \<open>
  \<^verbatim>\<open>internalInit\<close> and \<^verbatim>\<open>sessionInit\<close> read ambient globals and call collaborators that are
  not part of this file. The model makes this explicit:
  \<^item> \<open>sdk_state\<close> holds what the two functions write: the latch
    \<^verbatim>\<open>OneSignal._sessionInitAlreadyRunning\<close>, the browser's \<^verbatim>\<open>sessionStorage\<close> and
    \<^verbatim>\<open>OneSignal.subscriptionModalHost\<close>;
  \<^item> \<open>env\<close> holds what they only read during one call;
  \<^item> every call to a collaborator is an \<open>action\<close>, recorded in the order the code makes it
    (a log action carries the fixed text of its message, without the interpolated values);
  \<^item> every assignment to the latch is an action too, \<open>SetSessionInitAlreadyRunning\<close>, so that
    the list of actions shows where the assignment stands among the calls;
  \<^item> a callback handed to a collaborator is a \<open>task\<close> that runs after the synchronous part
    has returned; \<open>outcomes\<close> holds the values the collaborators pass to these callbacks.
  Collaborator calls are taken to return normally, and awaited promises to resolve, except for
  \<^verbatim>\<open>OneSignal.showHttpPrompt()\<close>, whose rejection the code handles itself. \<^verbatim>\<open>options\<close> is an
  object, as at every call site of this file (\<^verbatim>\<open>{__sdkCall: true}\<close>).
\<close>

datatype NotificationPermission = Default | Granted | Denied

text \<open>The strings of \<^verbatim>\<open>window.Notification.permission\<close>.\<close>

fun permission_string :: "NotificationPermission \<Rightarrow> string" where
  "permission_string Default = ''default''"
| "permission_string Granted = ''granted''"
| "permission_string Denied = ''denied''"

datatype sdk_event = SDK_INITIALIZED | PERMISSION_PROMPT_DISPLAYED

text \<open>
  What \<^verbatim>\<open>OneSignal.showHttpPrompt()\<close> may reject with. An \<^verbatim>\<open>InvalidStateError\<close> carries its
  \<^verbatim>\<open>reason\<close>, the name of an \<^verbatim>\<open>InvalidStateReason\<close> member as a string.
\<close>

datatype js_error =
    InvalidStateError string
  | PermissionMessageDismissedError
  | AlreadySubscribedError
  | OtherError string

text \<open>
  The endpoint handed to the backend registration on Safari is the device token after
  \<^verbatim>\<open>String.prototype.toLowerCase\<close>. The conversion is the browser's own and is not computed
  here: \<open>ToLowerCase tok\<close> stands for its result on \<open>tok\<close>.
\<close>

datatype endpoint = ToLowerCase string

datatype action =
    LogDebug string
  | LogInfo string
  | EventTrigger sdk_event
  | DatabaseGet string string
  | GetAppId
  | IsPushNotificationsEnabled
  | GetNotificationPermission
  | SafariRequestPermission jsval string
  | RegisterWithOneSignal string endpoint
  | BeginTemporaryBrowserSession
  | TriggerNotificationPermissionChanged bool
  | CheckAndTriggerNotificationPermissionChanged
  | SubscriptionModalHostLoad
  | NotificationRequestPermission
  | RegisterForW3CPush jsobj
  | MarkHttpsNativePromptDismissed
  | ShowHttpPrompt
  | UpdateServiceWorker
  | OnceVisibilityChange
  | SetSessionInitAlreadyRunning bool

text \<open>Logging leaves nothing behind that another component can observe.\<close>

fun observable :: "action \<Rightarrow> bool" where
  "observable (LogDebug m) = False"
| "observable (LogInfo m) = False"
| "observable a = True"

text \<open>The calls that start an asynchronous operation (they return a promise or take a callback).\<close>

fun asynchronous :: "action \<Rightarrow> bool" where
  "asynchronous (DatabaseGet t k) = True"
| "asynchronous GetAppId = True"
| "asynchronous IsPushNotificationsEnabled = True"
| "asynchronous GetNotificationPermission = True"
| "asynchronous (SafariRequestPermission w a) = True"
| "asynchronous (RegisterWithOneSignal a t) = True"
| "asynchronous NotificationRequestPermission = True"
| "asynchronous (RegisterForW3CPush opts) = True"
| "asynchronous ShowHttpPrompt = True"
| "asynchronous UpdateServiceWorker = True"
| "asynchronous a = False"

record sdk_state =
  sessionInitAlreadyRunning :: bool
  sessionStorage :: "string \<Rightarrow> string option"
  subscriptionModalHost :: "(string \<times> jsobj) option"

record env =
  config :: jsobj
  browser_safari :: bool
  serviceWorker_in_navigator :: bool
  isUsingSubscriptionWorkaround :: bool
  wasHttpsNativePromptDismissed :: bool
  isHttpPromptAlreadyShown :: bool
  Notification_permission :: NotificationPermission
  document_visible :: bool

record outcomes =
  appId :: string
  isPushEnabled :: bool
  pushResponse_deviceToken :: "string option"
  requestPermission_permission :: NotificationPermission
  permission_after_prompt :: NotificationPermission
  showHttpPrompt_rejection :: "js_error option"

datatype task =
    SafariGetAppIdThen
  | ModalPromiseAllThen jsobj
  | RequestPermissionCallback jsobj
  | ShowHttpPromptCatch

section \<open>Subscription flow selector\<close>

text \<open>
  Lines 274 to 348 of \<^verbatim>\<open>sessionInit\<close>: the branch selection, entered with the latch already
  set. It returns the state, the calls made synchronously and the callbacks left pending.
\<close>

definition sessionInit_flow :: "env \<Rightarrow> jsobj \<Rightarrow> sdk_state \<Rightarrow> sdk_state \<times> action list \<times> task list" where
  "sessionInit_flow e options s =
     (if browser_safari e then
        (if truthy (js_get (config e) ''safari_web_id'')
         then (s, [GetAppId], [SafariGetAppIdThen])
         else (s, [], []))
      else if truthy (js_get options ''modalPrompt'') \<and> truthy (js_get options ''fromRegisterFor'') then
        (s, [GetAppId, IsPushNotificationsEnabled, GetNotificationPermission],
         [ModalPromiseAllThen options])
      else if serviceWorker_in_navigator e \<and> \<not> isUsingSubscriptionWorkaround e then
        (if truthy (js_get options ''__sdkCall'') \<and> \<not> wasHttpsNativePromptDismissed e then
           (s, [EventTrigger PERMISSION_PROMPT_DISPLAYED, NotificationRequestPermission],
            [RequestPermissionCallback options])
         else if truthy (js_get options ''__sdkCall'') \<and> wasHttpsNativePromptDismissed e then
           (s\<lparr>sessionInitAlreadyRunning := False\<rparr>,
            [LogDebug ''OneSignal: Not automatically showing native HTTPS prompt because the user previously dismissed it.'',
             SetSessionInitAlreadyRunning False],
            [])
         else (s, [RegisterForW3CPush options], []))
      else
        (s,
         (if js_get (config e) ''autoRegister'' \<noteq> JBool True
          then [LogDebug ''OneSignal: Not automatically showing popover because autoRegister is not specifically true.'']
          else [])
         @ (if isHttpPromptAlreadyShown e
            then [LogDebug ''OneSignal: Not automatically showing popover because it was previously shown in the same session.'']
            else [])
         @ (if js_get (config e) ''autoRegister'' = JBool True \<and> \<not> isHttpPromptAlreadyShown e
            then [ShowHttpPrompt] else []),
         (if js_get (config e) ''autoRegister'' = JBool True \<and> \<not> isHttpPromptAlreadyShown e
          then [ShowHttpPromptCatch] else [])))"

text \<open>
  The synchronous part of \<^verbatim>\<open>sessionInit\<close>: the entry log, the latch check of lines 265 to
  270 with the assignment of line 269, the branch selection, and the trigger of line 350,
  which follows the whole \<^verbatim>\<open>if\<close> chain.
\<close>

definition sessionInit :: "env \<Rightarrow> jsobj \<Rightarrow> sdk_state \<Rightarrow> sdk_state \<times> action list \<times> task list" where
  "sessionInit e options s =
     (if sessionInitAlreadyRunning s then
        (s, [LogDebug ''Called sessionInit'',
             LogDebug ''Returning from sessionInit because it has already been called.''], [])
      else
        (case sessionInit_flow e options (s\<lparr>sessionInitAlreadyRunning := True\<rparr>) of
           (s', acts, tasks) \<Rightarrow>
             (s',
              LogDebug ''Called sessionInit'' # SetSessionInitAlreadyRunning True # acts
              @ [EventTrigger SDK_INITIALIZED],
              tasks)))"

text \<open>
  The handler given to \<^verbatim>\<open>.catch\<close> on the promise of \<^verbatim>\<open>showHttpPrompt()\<close>: it logs and returns
  (\<open>None\<close>) on the three expected errors and throws the error again (\<open>Some\<close>) otherwise.
\<close>

definition showHttpPrompt_catch :: "js_error \<Rightarrow> action list \<times> js_error option" where
  "showHttpPrompt_catch err =
     (if (case err of
            InvalidStateError reason \<Rightarrow> reason = ''RedundantPermissionMessage''
          | PermissionMessageDismissedError \<Rightarrow> True
          | AlreadySubscribedError \<Rightarrow> True
          | OtherError m \<Rightarrow> False)
      then ([LogDebug ''[Prompt Not Showing]''], None)
      else ([], Some err))"

text \<open>
  The callbacks of \<^verbatim>\<open>sessionInit\<close>. Each returns the state, the calls it makes, and the error
  it throws, if any. No caller holds the promise such an error rejects: \<^verbatim>\<open>sessionInit\<close>
  returns nothing.
\<close>

fun runTask :: "env \<Rightarrow> outcomes \<Rightarrow> task \<Rightarrow> sdk_state \<Rightarrow> sdk_state \<times> action list \<times> js_error option" where
  "runTask e oc SafariGetAppIdThen s =
     (s,
      [SafariRequestPermission (js_get (config e) ''safari_web_id'') (appId oc),
       LogInfo ''Safari Registration Result:'']
      @ (case pushResponse_deviceToken oc of
           None \<Rightarrow> [BeginTemporaryBrowserSession]
         | Some tok \<Rightarrow>
             if tok \<noteq> [] then [RegisterWithOneSignal (appId oc) (ToLowerCase tok)]
             else [BeginTemporaryBrowserSession])
      @ [TriggerNotificationPermissionChanged False],
      None)"
| "runTask e oc (ModalPromiseAllThen options) s =
     (s\<lparr>subscriptionModalHost := Some (appId oc, options)\<rparr>, [SubscriptionModalHostLoad], None)"
| "runTask e oc (RequestPermissionCallback options) s =
     (s,
      CheckAndTriggerNotificationPermissionChanged #
      (if requestPermission_permission oc = Granted then [RegisterForW3CPush options]
       else if permission_after_prompt oc = Default
            then [TriggerNotificationPermissionChanged True, MarkHttpsNativePromptDismissed]
            else []),
      None)"
| "runTask e oc ShowHttpPromptCatch s =
     (case showHttpPrompt_rejection oc of
        None \<Rightarrow> (s, [], None)
      | Some err \<Rightarrow> (case showHttpPrompt_catch err of (acts, thrown) \<Rightarrow> (s, acts, thrown)))"

fun runTasks :: "env \<Rightarrow> outcomes \<Rightarrow> task list \<Rightarrow> sdk_state \<Rightarrow> sdk_state \<times> action list \<times> js_error list" where
  "runTasks e oc [] s = (s, [], [])"
| "runTasks e oc (t # ts) s =
     (case runTask e oc t s of
        (s1, acts1, thrown) \<Rightarrow>
          (case runTasks e oc ts s1 of
             (s2, acts2, unhandled) \<Rightarrow>
               (s2, acts1 @ acts2, (case thrown of None \<Rightarrow> [] | Some err \<Rightarrow> [err]) @ unhandled)))"

text \<open>
  A whole run of \<^verbatim>\<open>sessionInit\<close>: the synchronous part, then its callbacks. The result is the
  final state, everything the run did, and the rejections left unhandled.
\<close>

definition sessionInit_run :: "env \<Rightarrow> outcomes \<Rightarrow> jsobj \<Rightarrow> sdk_state \<Rightarrow> sdk_state \<times> action list \<times> js_error list" where
  "sessionInit_run e oc options s =
     (case sessionInit e options s of
        (s1, acts1, tasks) \<Rightarrow>
          (case runTasks e oc tasks s1 of
             (s2, acts2, unhandled) \<Rightarrow> (s2, acts1 @ acts2, unhandled)))"

text \<open>Successive calls of \<^verbatim>\<open>sessionInit\<close> within one session, each on the state the last one left.\<close>

fun sessionInit_calls :: "(env \<times> jsobj) list \<Rightarrow> sdk_state \<Rightarrow> sdk_state \<times> action list \<times> task list" where
  "sessionInit_calls [] s = (s, [], [])"
| "sessionInit_calls (c # cs) s =
     (case sessionInit (fst c) (snd c) s of
        (s1, acts1, tasks1) \<Rightarrow>
          (case sessionInit_calls cs s1 of
             (s2, acts2, tasks2) \<Rightarrow> (s2, acts1 @ acts2, tasks1 @ tasks2)))"

section \<open>Session guard\<close>

text \<open>\<^verbatim>\<open>sessionStorage.getItem\<close> returns a string or \<^verbatim>\<open>null\<close>; only a non-empty string is truthy.\<close>

definition item_truthy :: "string option \<Rightarrow> bool" where
  "item_truthy item = (case item of None \<Rightarrow> False | Some str \<Rightarrow> str \<noteq> [])"

text \<open>
  \<^verbatim>\<open>internalInit\<close>. The two awaited values are the app id, which is not used, and
  \<^verbatim>\<open>isPushEnabled\<close>. The last branch calls \<^verbatim>\<open>sessionInit\<close>, whose synchronous part runs at
  once. \<open>OnceVisibilityChange\<close> is the registration of the one-time listener, whose body is
  \<open>visibilitychange_listener\<close>.
\<close>

definition internalInit :: "env \<Rightarrow> outcomes \<Rightarrow> sdk_state \<Rightarrow> sdk_state \<times> action list \<times> task list" where
  "internalInit e oc s =
     (if item_truthy (sessionStorage s ''ONE_SIGNAL_SESSION'')
         \<and> \<not> truthy (js_get (config e) ''subdomainName'')
         \<and> (Notification_permission e = Denied
            \<or> sessionStorage s ''ONE_SIGNAL_NOTIFICATION_PERMISSION''
                = Some (permission_string (Notification_permission e)))
      then
        (s, [LogDebug ''Called internalInit()'', DatabaseGet ''Ids'' ''appId'',
             EventTrigger SDK_INITIALIZED], [])
      else
        (let s1 = s\<lparr>sessionStorage := (sessionStorage s)
                      (''ONE_SIGNAL_NOTIFICATION_PERMISSION'' \<mapsto>
                         permission_string (Notification_permission e))\<rparr>
         in
         if browser_safari e \<and> js_get (config e) ''autoRegister'' = JBool False then
           (s1,
            [LogDebug ''Called internalInit()'', DatabaseGet ''Ids'' ''appId'',
             LogDebug ''On Safari and autoregister is false, skipping sessionInit().'']
            @ (if \<not> isUsingSubscriptionWorkaround e then [EventTrigger SDK_INITIALIZED] else []),
            [])
         else if js_get (config e) ''autoRegister'' = JBool False
                 \<and> \<not> truthy (js_get (config e) ''subdomainName'') then
           (s1,
            [LogDebug ''Called internalInit()'', DatabaseGet ''Ids'' ''appId'',
             LogDebug ''Skipping internal init. Not auto-registering and no subdomain.'',
             EventTrigger SDK_INITIALIZED,
             IsPushNotificationsEnabled]
            @ (if isPushEnabled oc \<and> \<not> isUsingSubscriptionWorkaround e
               then [LogInfo ''Because the user is already subscribed and has enabled notifications, we will re-register their GCM token.'',
                     RegisterForW3CPush Map.empty]
               else [UpdateServiceWorker]),
            [])
         else if \<not> document_visible e then
           (s1,
            [LogDebug ''Called internalInit()'', DatabaseGet ''Ids'' ''appId'',
             OnceVisibilityChange],
            [])
         else
           (case sessionInit e [''__sdkCall'' \<mapsto> JBool True] s1 of
              (s2, acts, tasks) \<Rightarrow>
                (s2, [LogDebug ''Called internalInit()'', DatabaseGet ''Ids'' ''appId''] @ acts,
                 tasks))))"

text \<open>
  The listener registered with \<^verbatim>\<open>once(document, 'visibilitychange', ...)\<close>, called with the
  visibility of the document at the time of the event.
\<close>

definition visibilitychange_listener :: "env \<Rightarrow> sdk_state \<Rightarrow> sdk_state \<times> action list \<times> task list" where
  "visibilitychange_listener e s =
     (if document_visible e then sessionInit e [''__sdkCall'' \<mapsto> JBool True] s
      else (s, [], []))"

section \<open>Example inputs\<close>

text \<open>
  A fresh session, a visible HTTPS page in a browser with service workers and nothing
  configured, and collaborators that answer with the least they can.
\<close>

definition state0 :: sdk_state where
  "state0 = \<lparr>sessionInitAlreadyRunning = False, sessionStorage = Map.empty,
             subscriptionModalHost = None\<rparr>"

definition env0 :: env where
  "env0 = \<lparr>config = Map.empty, browser_safari = False, serviceWorker_in_navigator = True,
           isUsingSubscriptionWorkaround = False, wasHttpsNativePromptDismissed = False,
           isHttpPromptAlreadyShown = False, Notification_permission = Default,
           document_visible = True\<rparr>"

definition outcomes0 :: outcomes where
  "outcomes0 = \<lparr>appId = ''app'', isPushEnabled = False, pushResponse_deviceToken = None,
                requestPermission_permission = Default, permission_after_prompt = Default,
                showHttpPrompt_rejection = None\<rparr>"

section \<open>Properties of the legacy config merger\<close>

lemma objectAssign_Nil: "objectAssign t [] = t"
  by (simp add: objectAssign_def)

lemma objectAssign_Cons: "objectAssign t (x # xs) = objectAssign (t ++ x) xs"
  by (simp add: objectAssign_def)

text \<open>
  C4. Whatever subdomain the server configuration carries (\<^verbatim>\<open>"foo"\<close> in particular), a
  \<^verbatim>\<open>userConfig\<close> without a \<^verbatim>\<open>subdomainName\<close> key gives a merged configuration without that
  key, and a \<^verbatim>\<open>userConfig\<close> whose \<^verbatim>\<open>subdomainName\<close> is \<^verbatim>\<open>"bar"\<close> gives a merged configuration
  whose \<^verbatim>\<open>subdomainName\<close> is \<^verbatim>\<open>"bar"\<close>.
\<close>

theorem getMergedLegacyConfig_subdomainName:
  "(userConfig ''subdomainName'' = None \<longrightarrow>
      getMergedLegacyConfig userConfig serverConfig ''subdomainName'' = None)
   \<and> (userConfig ''subdomainName'' = Some (JStr ''bar'') \<longrightarrow>
      getMergedLegacyConfig userConfig serverConfig ''subdomainName'' = Some (JStr ''bar''))"
  by (simp add: getMergedLegacyConfig_def js_get_def objectAssign_Nil objectAssign_Cons
        map_add_def Let_def)

theorem getMergedLegacyConfig_subdomainName_witness:
  "getMergedLegacyConfig Map.empty
      \<lparr>subdomain = JStr ''foo'', safariWebId = JUndefined, cookieSyncEnabled = JBool False\<rparr>
      ''subdomainName'' = None
   \<and> getMergedLegacyConfig [''subdomainName'' \<mapsto> JStr ''bar'']
      \<lparr>subdomain = JStr ''foo'', safariWebId = JUndefined, cookieSyncEnabled = JBool False\<rparr>
      ''subdomainName'' = Some (JStr ''bar'')"
  using getMergedLegacyConfig_subdomainName [of Map.empty
          "\<lparr>subdomain = JStr ''foo'', safariWebId = JUndefined, cookieSyncEnabled = JBool False\<rparr>"]
        getMergedLegacyConfig_subdomainName [of "[''subdomainName'' \<mapsto> JStr ''bar'']"
          "\<lparr>subdomain = JStr ''foo'', safariWebId = JUndefined, cookieSyncEnabled = JBool False\<rparr>"]
  by simp

text \<open>
  C10. The merged configuration has no \<^verbatim>\<open>subdomainName\<close> key whenever
  \<^verbatim>\<open>userConfig.subdomainName\<close> is falsy: not only when the key is absent, but also when it is
  present with the empty string, \<^verbatim>\<open>false\<close>, \<^verbatim>\<open>null\<close>, \<^verbatim>\<open>undefined\<close>, \<^verbatim>\<open>0\<close> or \<^verbatim>\<open>NaN\<close>.
\<close>

theorem getMergedLegacyConfig_falsy_subdomainName:
  "\<not> truthy (js_get userConfig ''subdomainName'') \<Longrightarrow>
     getMergedLegacyConfig userConfig serverConfig ''subdomainName'' = None"
  by (simp add: getMergedLegacyConfig_def)

theorem getMergedLegacyConfig_falsy_subdomainName_witness:
  "\<not> truthy (js_get [''subdomainName'' \<mapsto> JStr []] ''subdomainName'')
   \<and> getMergedLegacyConfig [''subdomainName'' \<mapsto> JStr []]
        \<lparr>subdomain = JStr ''foo'', safariWebId = JUndefined, cookieSyncEnabled = JBool False\<rparr>
        ''subdomainName'' = None
   \<and> \<not> truthy (js_get [''subdomainName'' \<mapsto> JBool False] ''subdomainName'')
   \<and> getMergedLegacyConfig [''subdomainName'' \<mapsto> JBool False]
        \<lparr>subdomain = JStr ''foo'', safariWebId = JUndefined, cookieSyncEnabled = JBool False\<rparr>
        ''subdomainName'' = None
   \<and> \<not> truthy (js_get [''subdomainName'' \<mapsto> JNull] ''subdomainName'')
   \<and> getMergedLegacyConfig [''subdomainName'' \<mapsto> JNull]
        \<lparr>subdomain = JStr ''foo'', safariWebId = JUndefined, cookieSyncEnabled = JBool False\<rparr>
        ''subdomainName'' = None"
proof -
  have h1: "\<not> truthy (js_get [''subdomainName'' \<mapsto> JStr []] ''subdomainName'')"
    by (simp add: js_get_def)
  have h2: "\<not> truthy (js_get [''subdomainName'' \<mapsto> JBool False] ''subdomainName'')"
    by (simp add: js_get_def)
  have h3: "\<not> truthy (js_get [''subdomainName'' \<mapsto> JNull] ''subdomainName'')"
    by (simp add: js_get_def)
  from h1 h2 h3
       getMergedLegacyConfig_falsy_subdomainName [OF h1]
       getMergedLegacyConfig_falsy_subdomainName [OF h2]
       getMergedLegacyConfig_falsy_subdomainName [OF h3]
  show ?thesis by blast
qed

section \<open>Properties of the option save\<close>

lemma saveInitOptions_keys:
  "distinct (map put_key (saveInitOptions cfg))
   \<and> (\<forall>p \<in> set (saveInitOptions cfg). put_table p = ''Options'')"
  by (simp add: saveInitOptions_def webhookEvents_def)

text \<open>
  C5. After the batch of \<^verbatim>\<open>saveInitOptions\<close> has been written, the option
  \<^verbatim>\<open>persistNotification\<close> is \<^verbatim>\<open>true\<close> when the configuration leaves the key unset, \<^verbatim>\<open>false\<close>
  when the configuration has it \<^verbatim>\<open>false\<close>, and the string \<^verbatim>\<open>"force"\<close> when the configuration
  has it \<^verbatim>\<open>true\<close>.
\<close>

theorem saveInitOptions_persistNotification:
  "(js_get cfg ''persistNotification'' = JUndefined \<longrightarrow>
      persist (saveInitOptions cfg) db (''Options'', ''persistNotification'') = Some (JBool True))
   \<and> (js_get cfg ''persistNotification'' = JBool False \<longrightarrow>
      persist (saveInitOptions cfg) db (''Options'', ''persistNotification'') = Some (JBool False))
   \<and> (js_get cfg ''persistNotification'' = JBool True \<longrightarrow>
      persist (saveInitOptions cfg) db (''Options'', ''persistNotification'') = Some (JStr ''force''))"
  by (simp add: persist_def saveInitOptions_def webhookEvents_def)

theorem saveInitOptions_persistNotification_witness:
  "persist (saveInitOptions Map.empty) Map.empty (''Options'', ''persistNotification'')
     = Some (JBool True)
   \<and> persist (saveInitOptions [''persistNotification'' \<mapsto> JBool False]) Map.empty
       (''Options'', ''persistNotification'') = Some (JBool False)
   \<and> persist (saveInitOptions [''persistNotification'' \<mapsto> JBool True]) Map.empty
       (''Options'', ''persistNotification'') = Some (JStr ''force'')"
  using saveInitOptions_persistNotification [of Map.empty Map.empty]
        saveInitOptions_persistNotification [of "[''persistNotification'' \<mapsto> JBool False]" Map.empty]
        saveInitOptions_persistNotification [of "[''persistNotification'' \<mapsto> JBool True]" Map.empty]
  by (simp add: js_get_def)

text \<open>
  C6, as the code has it. For each of the three webhook events, after the batch of
  \<^verbatim>\<open>saveInitOptions\<close> has been written: when the \<^verbatim>\<open>webhooks\<close> setting is an object whose entry
  for the event is truthy, the option \<^verbatim>\<open>webhooks.<event>\<close> is that entry; when the entry is
  absent or falsy (the empty string, \<^verbatim>\<open>0\<close>, \<^verbatim>\<open>false\<close>, \<^verbatim>\<open>null\<close>, \<^verbatim>\<open>undefined\<close>), the option is
  \<^verbatim>\<open>false\<close>; and when the \<^verbatim>\<open>webhooks\<close> setting is missing or is not an object, the option is
  \<^verbatim>\<open>false\<close> as well.
\<close>

theorem saveInitOptions_webhooks:
  assumes "event \<in> set webhookEvents"
  shows "(js_get cfg ''webhooks'' = JObj hooks \<and> truthy (js_get hooks event) \<longrightarrow>
            persist (saveInitOptions cfg) db (''Options'', ''webhooks.'' @ event)
              = Some (js_get hooks event))
       \<and> (js_get cfg ''webhooks'' = JObj hooks \<and> \<not> truthy (js_get hooks event) \<longrightarrow>
            persist (saveInitOptions cfg) db (''Options'', ''webhooks.'' @ event)
              = Some (JBool False))
       \<and> (\<not> is_object (js_get cfg ''webhooks'') \<longrightarrow>
            persist (saveInitOptions cfg) db (''Options'', ''webhooks.'' @ event)
              = Some (JBool False))"
proof -
  have w: "\<not> is_object v \<Longrightarrow> \<not> truthy (webhookOption v ev)" for v ev
    by (cases v) (simp_all add: webhookOption_def)
  have o: "webhookOption (JObj hooks) ev = js_get hooks ev" for ev
    by (simp add: webhookOption_def)
  from assms have ev: "event = ''notification.displayed'' \<or> event = ''notification.clicked''
      \<or> event = ''notification.dismissed''"
    by (simp add: webhookEvents_def)
  have p: "persist (saveInitOptions cfg) db (''Options'', ''webhooks.'' @ event) =
             Some (if truthy (webhookOption (js_get cfg ''webhooks'') event)
                   then webhookOption (js_get cfg ''webhooks'') event else JBool False)"
    using ev by (auto simp add: persist_def saveInitOptions_def webhookEvents_def)
  show ?thesis
    using p w [of "js_get cfg ''webhooks''" event] o [of event] by auto
qed

theorem saveInitOptions_webhooks_witness:
  "''notification.clicked'' \<in> set webhookEvents
   \<and> persist (saveInitOptions [''webhooks'' \<mapsto> JObj [''notification.clicked'' \<mapsto> JStr ''https://site.example/hook'']])
       Map.empty (''Options'', ''webhooks.notification.clicked'') = Some (JStr ''https://site.example/hook'')
   \<and> persist (saveInitOptions [''webhooks'' \<mapsto> JObj [''notification.displayed'' \<mapsto> JStr ''https://site.example/shown'']])
       Map.empty (''Options'', ''webhooks.notification.clicked'') = Some (JBool False)
   \<and> persist (saveInitOptions [''webhooks'' \<mapsto> JObj [''notification.clicked'' \<mapsto> JNum 0]])
       Map.empty (''Options'', ''webhooks.notification.clicked'') = Some (JBool False)
   \<and> persist (saveInitOptions Map.empty) Map.empty
       (''Options'', ''webhooks.notification.clicked'') = Some (JBool False)
   \<and> persist (saveInitOptions [''webhooks'' \<mapsto> JStr ''https://site.example/hook'']) Map.empty
       (''Options'', ''webhooks.notification.clicked'') = Some (JBool False)"
proof -
  have h: "''notification.clicked'' \<in> set webhookEvents"
    by (simp add: webhookEvents_def)
  from h
    saveInitOptions_webhooks [OF h,
      where cfg = "[''webhooks'' \<mapsto> JObj [''notification.clicked'' \<mapsto> JStr ''https://site.example/hook'']]"
        and hooks = "[''notification.clicked'' \<mapsto> JStr ''https://site.example/hook'']"
        and db = Map.empty]
    saveInitOptions_webhooks [OF h,
      where cfg = "[''webhooks'' \<mapsto> JObj [''notification.displayed'' \<mapsto> JStr ''https://site.example/shown'']]"
        and hooks = "[''notification.displayed'' \<mapsto> JStr ''https://site.example/shown'']"
        and db = Map.empty]
    saveInitOptions_webhooks [OF h,
      where cfg = "[''webhooks'' \<mapsto> JObj [''notification.clicked'' \<mapsto> JNum 0]]"
        and hooks = "[''notification.clicked'' \<mapsto> JNum 0]"
        and db = Map.empty]
    saveInitOptions_webhooks [OF h, where cfg = Map.empty and db = Map.empty]
    saveInitOptions_webhooks [OF h,
      where cfg = "[''webhooks'' \<mapsto> JStr ''https://site.example/hook'']" and db = Map.empty]
  show ?thesis by (simp add: js_get_def)
qed

text \<open>
  C6 as stated fails for an event that is present with a falsy value: with the entry for
  \<^verbatim>\<open>notification.clicked\<close> configured as the empty string, the option written is \<^verbatim>\<open>false\<close>, not
  the configured value.
\<close>

theorem saveInitOptions_webhooks_counterexample:
  "[''notification.clicked'' \<mapsto> JStr []] ''notification.clicked'' = Some (JStr [])
   \<and> persist (saveInitOptions [''webhooks'' \<mapsto> JObj [''notification.clicked'' \<mapsto> JStr []]])
        Map.empty (''Options'', ''webhooks.notification.clicked'') = Some (JBool False)
   \<and> persist (saveInitOptions [''webhooks'' \<mapsto> JObj [''notification.clicked'' \<mapsto> JStr []]])
        Map.empty (''Options'', ''webhooks.notification.clicked'') \<noteq> Some (JStr [])"
  by (simp add: persist_def saveInitOptions_def webhookEvents_def webhookOption_def js_get_def)

section \<open>Properties of the subscription flow selector\<close>

lemma sessionInit_flow_no_initialized:
  "EventTrigger SDK_INITIALIZED \<notin> set (fst (snd (sessionInit_flow e options s)))"
  by (simp add: sessionInit_flow_def)

lemma runTask_no_initialized:
  "EventTrigger SDK_INITIALIZED \<notin> set (fst (snd (runTask e oc t s)))"
  by (cases t) (auto simp add: showHttpPrompt_catch_def split: option.splits js_error.splits)

lemma runTasks_no_initialized:
  "EventTrigger SDK_INITIALIZED \<notin> set (fst (snd (runTasks e oc ts s)))"
proof (induction ts arbitrary: s)
  case Nil
  show ?case by simp
next
  case (Cons t ts)
  obtain s1 acts1 thrown where r1: "runTask e oc t s = (s1, acts1, thrown)"
    by (cases "runTask e oc t s") auto
  obtain s2 acts2 unhandled where r2: "runTasks e oc ts s1 = (s2, acts2, unhandled)"
    by (cases "runTasks e oc ts s1") auto
  from runTask_no_initialized [of e oc t s] r1
  have "EventTrigger SDK_INITIALIZED \<notin> set acts1" by simp
  moreover from Cons.IH [of s1] r2
  have "EventTrigger SDK_INITIALIZED \<notin> set acts2" by simp
  ultimately show ?case using r1 r2 by simp
qed

lemma sessionInit_sync_once:
  assumes "\<not> sessionInitAlreadyRunning s"
  shows "count_list (fst (snd (sessionInit e options s))) (EventTrigger SDK_INITIALIZED) = 1"
proof -
  obtain s' acts tasks
    where f: "sessionInit_flow e options (s\<lparr>sessionInitAlreadyRunning := True\<rparr>) = (s', acts, tasks)"
    by (cases "sessionInit_flow e options (s\<lparr>sessionInitAlreadyRunning := True\<rparr>)") auto
  from sessionInit_flow_no_initialized [of e options "s\<lparr>sessionInitAlreadyRunning := True\<rparr>"] f
  have "count_list acts (EventTrigger SDK_INITIALIZED) = 0"
    by simp
  with assms f show ?thesis
    by (simp add: sessionInit_def)
qed

lemma sessionInit_latched:
  "sessionInitAlreadyRunning s \<Longrightarrow>
     sessionInit e options s =
       (s, [LogDebug ''Called sessionInit'',
            LogDebug ''Returning from sessionInit because it has already been called.''], [])"
  by (simp add: sessionInit_def)

lemma sessionInit_calls_latched:
  "sessionInitAlreadyRunning s \<Longrightarrow>
     fst (sessionInit_calls cs s) = s
     \<and> filter observable (fst (snd (sessionInit_calls cs s))) = []
     \<and> snd (snd (sessionInit_calls cs s)) = []"
proof (induction cs)
  case Nil
  show ?case by simp
next
  case (Cons c cs)
  obtain s2 acts2 tasks2 where r: "sessionInit_calls cs s = (s2, acts2, tasks2)"
    by (cases "sessionInit_calls cs s") auto
  with Cons show ?case
    by (simp add: sessionInit_latched)
qed

lemma sessionInit_latch_when_pending:
  assumes "\<not> sessionInitAlreadyRunning s"
    and "snd (snd (sessionInit e options s)) \<noteq> []
         \<or> (\<exists>a \<in> set (fst (snd (sessionInit e options s))). asynchronous a)"
  shows "sessionInitAlreadyRunning (fst (sessionInit e options s))"
  using assms
  by (auto simp add: sessionInit_def sessionInit_flow_def split: if_splits)

lemma runTask_latch:
  "sessionInitAlreadyRunning (fst (runTask e oc t s)) = sessionInitAlreadyRunning s"
  by (cases t) (auto split: option.splits prod.splits)

lemma sessionInit_sync_last:
  assumes "\<not> sessionInitAlreadyRunning s"
  shows "last (fst (snd (sessionInit e options s))) = EventTrigger SDK_INITIALIZED"
proof -
  obtain s' acts tasks
    where f: "sessionInit_flow e options (s\<lparr>sessionInitAlreadyRunning := True\<rparr>) = (s', acts, tasks)"
    by (cases "sessionInit_flow e options (s\<lparr>sessionInitAlreadyRunning := True\<rparr>)") auto
  with assms show ?thesis
    by (simp add: sessionInit_def)
qed

lemma sessionInit_latch_first:
  assumes "\<not> sessionInitAlreadyRunning s"
  shows "take 2 (fst (snd (sessionInit e options s))) =
           [LogDebug ''Called sessionInit'', SetSessionInitAlreadyRunning True]
       \<and> \<not> list_ex asynchronous
             (takeWhile (\<lambda>a. a \<noteq> SetSessionInitAlreadyRunning True)
                (fst (snd (sessionInit e options s))))"
proof -
  obtain s' acts tasks
    where f: "sessionInit_flow e options (s\<lparr>sessionInitAlreadyRunning := True\<rparr>) = (s', acts, tasks)"
    by (cases "sessionInit_flow e options (s\<lparr>sessionInitAlreadyRunning := True\<rparr>)") auto
  with assms show ?thesis
    by (simp add: sessionInit_def)
qed

text \<open>
  C1, as the code has it. Every call of \<^verbatim>\<open>sessionInit\<close> that passes the latch triggers
  \<^verbatim>\<open>SDK_INITIALIZED\<close> exactly once, as the last action of its synchronous part, after the
  branch selection, and none of its callbacks triggers it again. This holds on every branch,
  the modal-prompt branch included: the trigger stands after the whole \<^verbatim>\<open>if\<close> chain.
\<close>

theorem sessionInit_initialized_once:
  assumes "\<not> sessionInitAlreadyRunning s"
  shows "count_list (fst (snd (sessionInit e options s))) (EventTrigger SDK_INITIALIZED) = 1
       \<and> count_list (fst (snd (sessionInit_run e oc options s))) (EventTrigger SDK_INITIALIZED) = 1
       \<and> last (fst (snd (sessionInit e options s))) = EventTrigger SDK_INITIALIZED"
proof -
  obtain s1 acts1 tasks where r1: "sessionInit e options s = (s1, acts1, tasks)"
    by (cases "sessionInit e options s") auto
  obtain s2 acts2 unhandled where r2: "runTasks e oc tasks s1 = (s2, acts2, unhandled)"
    by (cases "runTasks e oc tasks s1") auto
  from sessionInit_sync_once [OF assms, of e options] r1
  have c1: "count_list acts1 (EventTrigger SDK_INITIALIZED) = 1" by simp
  from runTasks_no_initialized [of e oc tasks s1] r2
  have c2: "count_list acts2 (EventTrigger SDK_INITIALIZED) = 0"
    by simp
  from sessionInit_sync_last [OF assms, of e options] r1
  have c3: "last acts1 = EventTrigger SDK_INITIALIZED" by simp
  from c1 c2 c3 r1 r2 show ?thesis
    by (simp add: sessionInit_run_def)
qed

theorem sessionInit_initialized_once_witness:
  "\<not> sessionInitAlreadyRunning state0
   \<and> count_list (fst (snd (sessionInit env0
          [''modalPrompt'' \<mapsto> JBool True, ''fromRegisterFor'' \<mapsto> JBool True] state0)))
        (EventTrigger SDK_INITIALIZED) = 1
   \<and> count_list (fst (snd (sessionInit_run env0 outcomes0
          [''modalPrompt'' \<mapsto> JBool True, ''fromRegisterFor'' \<mapsto> JBool True] state0)))
        (EventTrigger SDK_INITIALIZED) = 1
   \<and> last (fst (snd (sessionInit env0
          [''modalPrompt'' \<mapsto> JBool True, ''fromRegisterFor'' \<mapsto> JBool True] state0)))
        = EventTrigger SDK_INITIALIZED"
proof -
  have h: "\<not> sessionInitAlreadyRunning state0" by (simp add: state0_def)
  from h sessionInit_initialized_once [OF h] show ?thesis by simp
qed

text \<open>
  C1 as stated fails on the modal-prompt branch: a call with \<^verbatim>\<open>modalPrompt\<close> and
  \<^verbatim>\<open>fromRegisterFor\<close> set, outside Safari, starts the three lookups for the modal host and
  then triggers \<^verbatim>\<open>SDK_INITIALIZED\<close> itself.
\<close>

theorem sessionInit_modal_counterexample:
  "sessionInit env0 [''modalPrompt'' \<mapsto> JBool True, ''fromRegisterFor'' \<mapsto> JBool True] state0 =
     (state0\<lparr>sessionInitAlreadyRunning := True\<rparr>,
      [LogDebug ''Called sessionInit'', SetSessionInitAlreadyRunning True, GetAppId,
       IsPushNotificationsEnabled, GetNotificationPermission, EventTrigger SDK_INITIALIZED],
      [ModalPromiseAllThen [''modalPrompt'' \<mapsto> JBool True, ''fromRegisterFor'' \<mapsto> JBool True]])"
  by (simp add: sessionInit_def sessionInit_flow_def env0_def state0_def js_get_def)

text \<open>
  C2. While the latch is set, a call of \<^verbatim>\<open>sessionInit\<close> only logs: the state is unchanged,
  nothing is called, triggered or left pending, and the same holds for any number of further
  calls. So when the first call of a session leaves the latch set, the session has the state,
  the observable actions and the pending callbacks of that first call alone. The latch is
  set at entry, before anything asynchronous: a call that passes the latch assigns it right
  after its entry log, as its second action, with no asynchronous operation started before
  the assignment; whenever its synchronous part has started an asynchronous operation or
  left a callback pending, the latch is set when it returns; and no callback changes it.
\<close>

theorem sessionInit_reentry_silent:
  "(sessionInitAlreadyRunning s \<longrightarrow>
      sessionInit e options s =
        (s, [LogDebug ''Called sessionInit'',
             LogDebug ''Returning from sessionInit because it has already been called.''], [])
      \<and> fst (sessionInit_calls cs s) = s
      \<and> filter observable (fst (snd (sessionInit_calls cs s))) = []
      \<and> snd (snd (sessionInit_calls cs s)) = [])
   \<and> (\<not> sessionInitAlreadyRunning s \<and> sessionInitAlreadyRunning (fst (sessionInit e options s)) \<longrightarrow>
      fst (sessionInit_calls ((e, options) # cs) s) = fst (sessionInit e options s)
      \<and> filter observable (fst (snd (sessionInit_calls ((e, options) # cs) s)))
          = filter observable (fst (snd (sessionInit e options s)))
      \<and> snd (snd (sessionInit_calls ((e, options) # cs) s)) = snd (snd (sessionInit e options s)))
   \<and> (\<not> sessionInitAlreadyRunning s
       \<and> (snd (snd (sessionInit e options s)) \<noteq> []
          \<or> (\<exists>a \<in> set (fst (snd (sessionInit e options s))). asynchronous a)) \<longrightarrow>
      sessionInitAlreadyRunning (fst (sessionInit e options s)))
   \<and> sessionInitAlreadyRunning (fst (runTask e oc t s)) = sessionInitAlreadyRunning s
   \<and> (\<not> sessionInitAlreadyRunning s \<longrightarrow>
      take 2 (fst (snd (sessionInit e options s))) =
        [LogDebug ''Called sessionInit'', SetSessionInitAlreadyRunning True]
      \<and> \<not> list_ex asynchronous
            (takeWhile (\<lambda>a. a \<noteq> SetSessionInitAlreadyRunning True)
               (fst (snd (sessionInit e options s)))))"
proof -
  have a: "sessionInitAlreadyRunning s \<longrightarrow>
      sessionInit e options s =
        (s, [LogDebug ''Called sessionInit'',
             LogDebug ''Returning from sessionInit because it has already been called.''], [])
      \<and> fst (sessionInit_calls cs s) = s
      \<and> filter observable (fst (snd (sessionInit_calls cs s))) = []
      \<and> snd (snd (sessionInit_calls cs s)) = []"
    using sessionInit_latched [of s e options] sessionInit_calls_latched [of s cs] by blast
  have b: "\<not> sessionInitAlreadyRunning s \<and> sessionInitAlreadyRunning (fst (sessionInit e options s)) \<longrightarrow>
      fst (sessionInit_calls ((e, options) # cs) s) = fst (sessionInit e options s)
      \<and> filter observable (fst (snd (sessionInit_calls ((e, options) # cs) s)))
          = filter observable (fst (snd (sessionInit e options s)))
      \<and> snd (snd (sessionInit_calls ((e, options) # cs) s)) = snd (snd (sessionInit e options s))"
  proof
    assume h: "\<not> sessionInitAlreadyRunning s \<and> sessionInitAlreadyRunning (fst (sessionInit e options s))"
    obtain s1 acts1 tasks1 where r1: "sessionInit e options s = (s1, acts1, tasks1)"
      by (cases "sessionInit e options s") auto
    obtain s2 acts2 tasks2 where r2: "sessionInit_calls cs s1 = (s2, acts2, tasks2)"
      by (cases "sessionInit_calls cs s1") auto
    from h r1 have "sessionInitAlreadyRunning s1" by simp
    from sessionInit_calls_latched [OF this, of cs] r2
    have "s2 = s1" and "filter observable acts2 = []" and "tasks2 = []" by simp_all
    with r1 r2
    show "fst (sessionInit_calls ((e, options) # cs) s) = fst (sessionInit e options s)
      \<and> filter observable (fst (snd (sessionInit_calls ((e, options) # cs) s)))
          = filter observable (fst (snd (sessionInit e options s)))
      \<and> snd (snd (sessionInit_calls ((e, options) # cs) s)) = snd (snd (sessionInit e options s))"
      by simp
  qed
  have c: "\<not> sessionInitAlreadyRunning s
       \<and> (snd (snd (sessionInit e options s)) \<noteq> []
          \<or> (\<exists>a \<in> set (fst (snd (sessionInit e options s))). asynchronous a)) \<longrightarrow>
      sessionInitAlreadyRunning (fst (sessionInit e options s))"
    using sessionInit_latch_when_pending [of s e options] by blast
  have d: "\<not> sessionInitAlreadyRunning s \<longrightarrow>
      take 2 (fst (snd (sessionInit e options s))) =
        [LogDebug ''Called sessionInit'', SetSessionInitAlreadyRunning True]
      \<and> \<not> list_ex asynchronous
            (takeWhile (\<lambda>a. a \<noteq> SetSessionInitAlreadyRunning True)
               (fst (snd (sessionInit e options s))))"
    using sessionInit_latch_first [of s e options] by blast
  from a b c d runTask_latch [of e oc t s] show ?thesis by blast
qed

theorem sessionInit_reentry_silent_witness:
  "sessionInitAlreadyRunning (state0\<lparr>sessionInitAlreadyRunning := True\<rparr>)
   \<and> sessionInit env0 [''__sdkCall'' \<mapsto> JBool True] (state0\<lparr>sessionInitAlreadyRunning := True\<rparr>) =
       (state0\<lparr>sessionInitAlreadyRunning := True\<rparr>,
        [LogDebug ''Called sessionInit'',
         LogDebug ''Returning from sessionInit because it has already been called.''], [])
   \<and> \<not> sessionInitAlreadyRunning state0
   \<and> sessionInitAlreadyRunning (fst (sessionInit env0 [''__sdkCall'' \<mapsto> JBool True] state0))
   \<and> snd (snd (sessionInit env0 [''__sdkCall'' \<mapsto> JBool True] state0)) \<noteq> []
   \<and> take 2 (fst (snd (sessionInit env0 [''__sdkCall'' \<mapsto> JBool True] state0))) =
       [LogDebug ''Called sessionInit'', SetSessionInitAlreadyRunning True]
   \<and> filter observable (fst (snd (sessionInit_calls
         [(env0, [''__sdkCall'' \<mapsto> JBool True]), (env0, [''__sdkCall'' \<mapsto> JBool True]),
          (env0, Map.empty)] state0)))
       = [SetSessionInitAlreadyRunning True, EventTrigger PERMISSION_PROMPT_DISPLAYED,
          NotificationRequestPermission, EventTrigger SDK_INITIALIZED]"
proof -
  have h1: "sessionInitAlreadyRunning (state0\<lparr>sessionInitAlreadyRunning := True\<rparr>)" by simp
  have h2: "\<not> sessionInitAlreadyRunning state0" by (simp add: state0_def)
  have r: "sessionInit env0 [''__sdkCall'' \<mapsto> JBool True] state0 =
             (state0\<lparr>sessionInitAlreadyRunning := True\<rparr>,
              [LogDebug ''Called sessionInit'', SetSessionInitAlreadyRunning True,
               EventTrigger PERMISSION_PROMPT_DISPLAYED,
               NotificationRequestPermission, EventTrigger SDK_INITIALIZED],
              [RequestPermissionCallback [''__sdkCall'' \<mapsto> JBool True]])"
    by (simp add: sessionInit_def sessionInit_flow_def env0_def state0_def js_get_def)
  from h1 h2 r
    sessionInit_reentry_silent [of "state0\<lparr>sessionInitAlreadyRunning := True\<rparr>" env0
      "[''__sdkCall'' \<mapsto> JBool True]" "[]" outcomes0 SafariGetAppIdThen]
    sessionInit_reentry_silent [of state0 env0 "[''__sdkCall'' \<mapsto> JBool True]"
      "[(env0, [''__sdkCall'' \<mapsto> JBool True]), (env0, Map.empty)]" outcomes0 SafariGetAppIdThen]
  show ?thesis by simp
qed

text \<open>
  C8, as the code has it. In the HTTP popover branch of a call that passed the latch, the
  popover is shown exactly when \<^verbatim>\<open>autoRegister\<close> is \<^verbatim>\<open>true\<close> and the popover has not been shown
  in this session, and only then is the \<^verbatim>\<open>catch\<close> handler left pending. When the popover
  rejects with a redundant-prompt \<^verbatim>\<open>InvalidStateError\<close>, a \<^verbatim>\<open>PermissionMessageDismissedError\<close>
  or an \<^verbatim>\<open>AlreadySubscribedError\<close>, the handler logs the error and nothing is left
  unhandled. When it rejects with anything else, the handler throws the error again without
  logging; the promise this rejects is held by no one, so the error stays an unhandled
  rejection. In both cases the synchronous part has already returned to the caller, with
  \<^verbatim>\<open>SDK_INITIALIZED\<close> triggered last.
\<close>

theorem sessionInit_http_prompt:
  assumes "\<not> sessionInitAlreadyRunning s"
    and "\<not> browser_safari e"
    and "\<not> (truthy (js_get options ''modalPrompt'') \<and> truthy (js_get options ''fromRegisterFor''))"
    and "\<not> (serviceWorker_in_navigator e \<and> \<not> isUsingSubscriptionWorkaround e)"
  shows "(ShowHttpPrompt \<in> set (fst (snd (sessionInit e options s)))
            \<longleftrightarrow> js_get (config e) ''autoRegister'' = JBool True \<and> \<not> isHttpPromptAlreadyShown e)
       \<and> snd (snd (sessionInit e options s)) =
           (if js_get (config e) ''autoRegister'' = JBool True \<and> \<not> isHttpPromptAlreadyShown e
            then [ShowHttpPromptCatch] else [])
       \<and> last (fst (snd (sessionInit e options s))) = EventTrigger SDK_INITIALIZED
       \<and> (js_get (config e) ''autoRegister'' = JBool True \<and> \<not> isHttpPromptAlreadyShown e
          \<and> showHttpPrompt_rejection oc = Some err
          \<and> err \<in> {InvalidStateError ''RedundantPermissionMessage'',
                    PermissionMessageDismissedError, AlreadySubscribedError} \<longrightarrow>
            sessionInit_run e oc options s =
              (fst (sessionInit e options s),
               fst (snd (sessionInit e options s)) @ [LogDebug ''[Prompt Not Showing]''],
               []))
       \<and> (js_get (config e) ''autoRegister'' = JBool True \<and> \<not> isHttpPromptAlreadyShown e
          \<and> showHttpPrompt_rejection oc = Some err
          \<and> err \<notin> {InvalidStateError ''RedundantPermissionMessage'',
                    PermissionMessageDismissedError, AlreadySubscribedError} \<longrightarrow>
            sessionInit_run e oc options s =
              (fst (sessionInit e options s), fst (snd (sessionInit e options s)), [err]))"
proof -
  from assms have f: "sessionInit_flow e options (s\<lparr>sessionInitAlreadyRunning := True\<rparr>) =
      (s\<lparr>sessionInitAlreadyRunning := True\<rparr>,
       (if js_get (config e) ''autoRegister'' \<noteq> JBool True
        then [LogDebug ''OneSignal: Not automatically showing popover because autoRegister is not specifically true.'']
        else [])
       @ (if isHttpPromptAlreadyShown e
          then [LogDebug ''OneSignal: Not automatically showing popover because it was previously shown in the same session.'']
          else [])
       @ (if js_get (config e) ''autoRegister'' = JBool True \<and> \<not> isHttpPromptAlreadyShown e
          then [ShowHttpPrompt] else []),
       (if js_get (config e) ''autoRegister'' = JBool True \<and> \<not> isHttpPromptAlreadyShown e
        then [ShowHttpPromptCatch] else []))"
    by (simp add: sessionInit_flow_def)
  from assms(1) f have p1: "ShowHttpPrompt \<in> set (fst (snd (sessionInit e options s)))
            \<longleftrightarrow> js_get (config e) ''autoRegister'' = JBool True \<and> \<not> isHttpPromptAlreadyShown e"
    by (simp add: sessionInit_def)
  from assms(1) f have p2: "snd (snd (sessionInit e options s)) =
           (if js_get (config e) ''autoRegister'' = JBool True \<and> \<not> isHttpPromptAlreadyShown e
            then [ShowHttpPromptCatch] else [])"
    by (simp add: sessionInit_def)
  from assms(1) f have p3: "last (fst (snd (sessionInit e options s))) = EventTrigger SDK_INITIALIZED"
    by (simp add: sessionInit_def)
  have p4: "js_get (config e) ''autoRegister'' = JBool True \<and> \<not> isHttpPromptAlreadyShown e
          \<and> showHttpPrompt_rejection oc = Some err
          \<and> err \<in> {InvalidStateError ''RedundantPermissionMessage'',
                    PermissionMessageDismissedError, AlreadySubscribedError} \<longrightarrow>
            sessionInit_run e oc options s =
              (fst (sessionInit e options s),
               fst (snd (sessionInit e options s)) @ [LogDebug ''[Prompt Not Showing]''],
               [])"
    using assms(1) f
    by (auto simp add: sessionInit_run_def sessionInit_def showHttpPrompt_catch_def)
  have p5: "js_get (config e) ''autoRegister'' = JBool True \<and> \<not> isHttpPromptAlreadyShown e
          \<and> showHttpPrompt_rejection oc = Some err
          \<and> err \<notin> {InvalidStateError ''RedundantPermissionMessage'',
                    PermissionMessageDismissedError, AlreadySubscribedError} \<longrightarrow>
            sessionInit_run e oc options s =
              (fst (sessionInit e options s), fst (snd (sessionInit e options s)), [err])"
    using assms(1) f
    by (cases err) (auto simp add: sessionInit_run_def sessionInit_def showHttpPrompt_catch_def)
  from p1 p2 p3 p4 p5 show ?thesis by blast
qed

theorem sessionInit_http_prompt_witness:
  "\<not> sessionInitAlreadyRunning state0
   \<and> \<not> browser_safari (env0\<lparr>serviceWorker_in_navigator := False,
                              config := [''autoRegister'' \<mapsto> JBool True]\<rparr>)
   \<and> ShowHttpPrompt \<in> set (fst (snd (sessionInit
         (env0\<lparr>serviceWorker_in_navigator := False, config := [''autoRegister'' \<mapsto> JBool True]\<rparr>)
         Map.empty state0)))
   \<and> snd (snd (sessionInit_run
         (env0\<lparr>serviceWorker_in_navigator := False, config := [''autoRegister'' \<mapsto> JBool True]\<rparr>)
         (outcomes0\<lparr>showHttpPrompt_rejection := Some AlreadySubscribedError\<rparr>)
         Map.empty state0)) = []
   \<and> snd (snd (sessionInit_run
         (env0\<lparr>serviceWorker_in_navigator := False, config := [''autoRegister'' \<mapsto> JBool True]\<rparr>)
         (outcomes0\<lparr>showHttpPrompt_rejection := Some (InvalidStateError ''MissingAppId'')\<rparr>)
         Map.empty state0)) = [InvalidStateError ''MissingAppId'']"
proof -
  let ?e = "env0\<lparr>serviceWorker_in_navigator := False, config := [''autoRegister'' \<mapsto> JBool True]\<rparr>"
  have h1: "\<not> sessionInitAlreadyRunning state0" by (simp add: state0_def)
  have h2: "\<not> browser_safari ?e" by (simp add: env0_def)
  have h3: "\<not> (truthy (js_get Map.empty ''modalPrompt'') \<and> truthy (js_get Map.empty ''fromRegisterFor''))"
    by (simp add: js_get_def)
  have h4: "\<not> (serviceWorker_in_navigator ?e \<and> \<not> isUsingSubscriptionWorkaround ?e)" by simp
  have h5: "js_get (config ?e) ''autoRegister'' = JBool True \<and> \<not> isHttpPromptAlreadyShown ?e"
    by (simp add: js_get_def env0_def)
  from h1 h2 h5
    sessionInit_http_prompt [OF h1 h2 h3 h4,
      where oc = "outcomes0\<lparr>showHttpPrompt_rejection := Some AlreadySubscribedError\<rparr>"
        and err = AlreadySubscribedError]
    sessionInit_http_prompt [OF h1 h2 h3 h4,
      where oc = "outcomes0\<lparr>showHttpPrompt_rejection := Some (InvalidStateError ''MissingAppId'')\<rparr>"
        and err = "InvalidStateError ''MissingAppId''"]
  show ?thesis by simp
qed

text \<open>
  C8 as stated fails where it says that any other failure propagates to the caller. On an
  HTTP page with \<^verbatim>\<open>autoRegister\<close> set to \<^verbatim>\<open>true\<close> and a popover that rejects with some other
  error, \<^verbatim>\<open>sessionInit\<close> returns to its caller as on success, and the error is left as an
  unhandled rejection.
\<close>

theorem sessionInit_http_prompt_counterexample:
  "sessionInit
      (env0\<lparr>serviceWorker_in_navigator := False, config := [''autoRegister'' \<mapsto> JBool True]\<rparr>)
      [''__sdkCall'' \<mapsto> JBool True] state0 =
     (state0\<lparr>sessionInitAlreadyRunning := True\<rparr>,
      [LogDebug ''Called sessionInit'', SetSessionInitAlreadyRunning True, ShowHttpPrompt,
       EventTrigger SDK_INITIALIZED],
      [ShowHttpPromptCatch])
   \<and> sessionInit_run
      (env0\<lparr>serviceWorker_in_navigator := False, config := [''autoRegister'' \<mapsto> JBool True]\<rparr>)
      (outcomes0\<lparr>showHttpPrompt_rejection := Some (OtherError ''timeout'')\<rparr>)
      [''__sdkCall'' \<mapsto> JBool True] state0 =
     (state0\<lparr>sessionInitAlreadyRunning := True\<rparr>,
      [LogDebug ''Called sessionInit'', SetSessionInitAlreadyRunning True, ShowHttpPrompt,
       EventTrigger SDK_INITIALIZED],
      [OtherError ''timeout''])"
  by (simp add: sessionInit_run_def sessionInit_def sessionInit_flow_def showHttpPrompt_catch_def
        env0_def state0_def outcomes0_def js_get_def)

text \<open>
  C9, as the code has it. A call of \<^verbatim>\<open>sessionInit\<close> on Safari that passes the latch, with no
  \<^verbatim>\<open>safari_web_id\<close> configured, runs no subscription flow: it calls nothing and leaves no
  callback pending. It sets the latch, leaves it set and triggers \<^verbatim>\<open>SDK_INITIALIZED\<close>.
\<close>

theorem sessionInit_safari_no_web_id:
  assumes "\<not> sessionInitAlreadyRunning s"
    and "browser_safari e"
    and "\<not> truthy (js_get (config e) ''safari_web_id'')"
  shows "sessionInit e options s =
           (s\<lparr>sessionInitAlreadyRunning := True\<rparr>,
            [LogDebug ''Called sessionInit'', SetSessionInitAlreadyRunning True,
             EventTrigger SDK_INITIALIZED], [])
       \<and> sessionInit_run e oc options s =
           (s\<lparr>sessionInitAlreadyRunning := True\<rparr>,
            [LogDebug ''Called sessionInit'', SetSessionInitAlreadyRunning True,
             EventTrigger SDK_INITIALIZED], [])"
  using assms
  by (simp add: sessionInit_run_def sessionInit_def sessionInit_flow_def)

theorem sessionInit_safari_no_web_id_witness:
  "\<not> sessionInitAlreadyRunning state0
   \<and> browser_safari (env0\<lparr>browser_safari := True\<rparr>)
   \<and> \<not> truthy (js_get (config (env0\<lparr>browser_safari := True\<rparr>)) ''safari_web_id'')
   \<and> sessionInit_run (env0\<lparr>browser_safari := True\<rparr>) outcomes0 [''__sdkCall'' \<mapsto> JBool True] state0 =
       (state0\<lparr>sessionInitAlreadyRunning := True\<rparr>,
        [LogDebug ''Called sessionInit'', SetSessionInitAlreadyRunning True,
             EventTrigger SDK_INITIALIZED], [])"
proof -
  have h1: "\<not> sessionInitAlreadyRunning state0" by (simp add: state0_def)
  have h2: "browser_safari (env0\<lparr>browser_safari := True\<rparr>)" by simp
  have h3: "\<not> truthy (js_get (config (env0\<lparr>browser_safari := True\<rparr>)) ''safari_web_id'')"
    by (simp add: env0_def js_get_def)
  from h1 h2 h3 sessionInit_safari_no_web_id [OF h1 h2 h3] show ?thesis by simp
qed

text \<open>
  C9 as stated fails for a call made while the latch is set: on Safari with no
  \<^verbatim>\<open>safari_web_id\<close>, such a call leaves the latch set but returns before the trigger, so no
  \<^verbatim>\<open>SDK_INITIALIZED\<close> is emitted.
\<close>

theorem sessionInit_safari_no_web_id_counterexample:
  "sessionInit_run (env0\<lparr>browser_safari := True\<rparr>) outcomes0 [''__sdkCall'' \<mapsto> JBool True]
      (state0\<lparr>sessionInitAlreadyRunning := True\<rparr>) =
     (state0\<lparr>sessionInitAlreadyRunning := True\<rparr>,
      [LogDebug ''Called sessionInit'',
       LogDebug ''Returning from sessionInit because it has already been called.''],
      [])
   \<and> EventTrigger SDK_INITIALIZED \<notin> set (fst (snd (sessionInit_run (env0\<lparr>browser_safari := True\<rparr>)
        outcomes0 [''__sdkCall'' \<mapsto> JBool True] (state0\<lparr>sessionInitAlreadyRunning := True\<rparr>))))"
  by (simp add: sessionInit_run_def sessionInit_def)

section \<open>Properties of the session guard\<close>

text \<open>
  C3. When the session marker is set, no subdomain is configured, and the current permission
  is \<^verbatim>\<open>denied\<close> or is the one last recorded in this session, \<^verbatim>\<open>internalInit\<close> logs, reads the app
  id and triggers \<^verbatim>\<open>SDK_INITIALIZED\<close>, and that is all: no other event, no subscription flow,
  nothing left pending, and the state, with its recorded permission, is unchanged.
\<close>

theorem internalInit_session_short_circuit:
  assumes "item_truthy (sessionStorage s ''ONE_SIGNAL_SESSION'')"
    and "\<not> truthy (js_get (config e) ''subdomainName'')"
    and "Notification_permission e = Denied
         \<or> sessionStorage s ''ONE_SIGNAL_NOTIFICATION_PERMISSION''
             = Some (permission_string (Notification_permission e))"
  shows "internalInit e oc s =
           (s, [LogDebug ''Called internalInit()'', DatabaseGet ''Ids'' ''appId'',
                EventTrigger SDK_INITIALIZED], [])"
  using assms
  by (simp add: internalInit_def)

theorem internalInit_session_short_circuit_witness:
  "item_truthy (sessionStorage (state0\<lparr>sessionStorage := [''ONE_SIGNAL_SESSION'' \<mapsto> ''true'']\<rparr>)
      ''ONE_SIGNAL_SESSION'')
   \<and> \<not> truthy (js_get (config (env0\<lparr>Notification_permission := Denied\<rparr>)) ''subdomainName'')
   \<and> Notification_permission (env0\<lparr>Notification_permission := Denied\<rparr>) = Denied
   \<and> internalInit (env0\<lparr>Notification_permission := Denied\<rparr>) outcomes0
        (state0\<lparr>sessionStorage := [''ONE_SIGNAL_SESSION'' \<mapsto> ''true'']\<rparr>) =
       (state0\<lparr>sessionStorage := [''ONE_SIGNAL_SESSION'' \<mapsto> ''true'']\<rparr>,
        [LogDebug ''Called internalInit()'', DatabaseGet ''Ids'' ''appId'',
         EventTrigger SDK_INITIALIZED], [])
   \<and> sessionStorage (state0\<lparr>sessionStorage := [''ONE_SIGNAL_SESSION'' \<mapsto> ''true'',
         ''ONE_SIGNAL_NOTIFICATION_PERMISSION'' \<mapsto> ''granted'']\<rparr>)
       ''ONE_SIGNAL_NOTIFICATION_PERMISSION''
       = Some (permission_string (Notification_permission (env0\<lparr>Notification_permission := Granted\<rparr>)))
   \<and> fst (snd (internalInit (env0\<lparr>Notification_permission := Granted\<rparr>) outcomes0
        (state0\<lparr>sessionStorage := [''ONE_SIGNAL_SESSION'' \<mapsto> ''true'',
           ''ONE_SIGNAL_NOTIFICATION_PERMISSION'' \<mapsto> ''granted'']\<rparr>))) =
       [LogDebug ''Called internalInit()'', DatabaseGet ''Ids'' ''appId'',
        EventTrigger SDK_INITIALIZED]"
proof -
  let ?s1 = "state0\<lparr>sessionStorage := [''ONE_SIGNAL_SESSION'' \<mapsto> ''true'']\<rparr>"
  let ?e1 = "env0\<lparr>Notification_permission := Denied\<rparr>"
  let ?s2 = "state0\<lparr>sessionStorage := [''ONE_SIGNAL_SESSION'' \<mapsto> ''true'',
               ''ONE_SIGNAL_NOTIFICATION_PERMISSION'' \<mapsto> ''granted'']\<rparr>"
  let ?e2 = "env0\<lparr>Notification_permission := Granted\<rparr>"
  have a1: "item_truthy (sessionStorage ?s1 ''ONE_SIGNAL_SESSION'')"
    by (simp add: item_truthy_def)
  have a2: "\<not> truthy (js_get (config ?e1) ''subdomainName'')"
    by (simp add: env0_def js_get_def)
  have a3: "Notification_permission ?e1 = Denied" by simp
  have b1: "item_truthy (sessionStorage ?s2 ''ONE_SIGNAL_SESSION'')"
    by (simp add: item_truthy_def)
  have b2: "\<not> truthy (js_get (config ?e2) ''subdomainName'')"
    by (simp add: env0_def js_get_def)
  have b3: "sessionStorage ?s2 ''ONE_SIGNAL_NOTIFICATION_PERMISSION''
              = Some (permission_string (Notification_permission ?e2))"
    by simp
  from a1 a2 a3 b3
    internalInit_session_short_circuit [OF a1 a2 disjI1 [OF a3], of outcomes0]
    internalInit_session_short_circuit [OF b1 b2 disjI2 [OF b3], of outcomes0]
  show ?thesis by simp
qed

text \<open>
  C7, as the code has it. When \<^verbatim>\<open>internalInit\<close> reaches its third test, that is, when the
  session short-circuit does not apply and the browser is not Safari, and \<^verbatim>\<open>autoRegister\<close> is
  \<^verbatim>\<open>false\<close> with no subdomain configured, it triggers \<^verbatim>\<open>SDK_INITIALIZED\<close> first and only then
  asks whether push is enabled and follows up: it registers for push again when the user is
  subscribed and not on the workaround path, and otherwise asks for a service-worker update.
  Neither follow-up is awaited, nothing is left pending, and the part of the run up to the
  trigger is the same whatever the collaborators answer.
\<close>

theorem internalInit_autoRegister_false:
  assumes "\<not> (item_truthy (sessionStorage s ''ONE_SIGNAL_SESSION'')
              \<and> (Notification_permission e = Denied
                 \<or> sessionStorage s ''ONE_SIGNAL_NOTIFICATION_PERMISSION''
                     = Some (permission_string (Notification_permission e))))"
    and "\<not> browser_safari e"
    and "js_get (config e) ''autoRegister'' = JBool False"
    and "\<not> truthy (js_get (config e) ''subdomainName'')"
  shows "snd (internalInit e oc s) =
           ([LogDebug ''Called internalInit()'', DatabaseGet ''Ids'' ''appId'',
             LogDebug ''Skipping internal init. Not auto-registering and no subdomain.'',
             EventTrigger SDK_INITIALIZED,
             IsPushNotificationsEnabled]
            @ (if isPushEnabled oc \<and> \<not> isUsingSubscriptionWorkaround e
               then [LogInfo ''Because the user is already subscribed and has enabled notifications, we will re-register their GCM token.'',
                     RegisterForW3CPush Map.empty]
               else [UpdateServiceWorker]),
            [])
       \<and> take 4 (fst (snd (internalInit e oc' s))) = take 4 (fst (snd (internalInit e oc s)))"
  using assms
  by (auto simp add: internalInit_def Let_def)

theorem internalInit_autoRegister_false_witness:
  "\<not> browser_safari (env0\<lparr>config := [''autoRegister'' \<mapsto> JBool False]\<rparr>)
   \<and> js_get (config (env0\<lparr>config := [''autoRegister'' \<mapsto> JBool False]\<rparr>)) ''autoRegister'' = JBool False
   \<and> \<not> truthy (js_get (config (env0\<lparr>config := [''autoRegister'' \<mapsto> JBool False]\<rparr>)) ''subdomainName'')
   \<and> snd (internalInit (env0\<lparr>config := [''autoRegister'' \<mapsto> JBool False]\<rparr>)
        (outcomes0\<lparr>isPushEnabled := True\<rparr>) state0) =
       ([LogDebug ''Called internalInit()'', DatabaseGet ''Ids'' ''appId'',
         LogDebug ''Skipping internal init. Not auto-registering and no subdomain.'',
         EventTrigger SDK_INITIALIZED,
         IsPushNotificationsEnabled,
         LogInfo ''Because the user is already subscribed and has enabled notifications, we will re-register their GCM token.'',
         RegisterForW3CPush Map.empty],
        [])
   \<and> snd (internalInit (env0\<lparr>config := [''autoRegister'' \<mapsto> JBool False]\<rparr>) outcomes0 state0) =
       ([LogDebug ''Called internalInit()'', DatabaseGet ''Ids'' ''appId'',
         LogDebug ''Skipping internal init. Not auto-registering and no subdomain.'',
         EventTrigger SDK_INITIALIZED,
         IsPushNotificationsEnabled,
         UpdateServiceWorker],
        [])"
proof -
  let ?e = "env0\<lparr>config := [''autoRegister'' \<mapsto> JBool False]\<rparr>"
  have h1: "\<not> (item_truthy (sessionStorage state0 ''ONE_SIGNAL_SESSION'')
              \<and> (Notification_permission ?e = Denied
                 \<or> sessionStorage state0 ''ONE_SIGNAL_NOTIFICATION_PERMISSION''
                     = Some (permission_string (Notification_permission ?e))))"
    by (simp add: state0_def item_truthy_def)
  have h2: "\<not> browser_safari ?e" by (simp add: env0_def)
  have h3: "js_get (config ?e) ''autoRegister'' = JBool False" by (simp add: js_get_def)
  have h4: "\<not> truthy (js_get (config ?e) ''subdomainName'')" by (simp add: js_get_def)
  have w: "\<not> isUsingSubscriptionWorkaround ?e" by (simp add: env0_def)
  from h2 h3 h4 w
    internalInit_autoRegister_false [OF h1 h2 h3 h4, of "outcomes0\<lparr>isPushEnabled := True\<rparr>" outcomes0]
    internalInit_autoRegister_false [OF h1 h2 h3 h4, of outcomes0 outcomes0]
  show ?thesis by (simp add: outcomes0_def)
qed

text \<open>
  C7 as stated fails on Safari: with \<^verbatim>\<open>autoRegister\<close> set to \<^verbatim>\<open>false\<close> and no subdomain, the
  Safari test comes first, and \<^verbatim>\<open>internalInit\<close> triggers \<^verbatim>\<open>SDK_INITIALIZED\<close> and returns with no
  follow-up: it neither registers for push again nor asks for a service-worker update.
\<close>

theorem internalInit_autoRegister_false_counterexample:
  "js_get (config (env0\<lparr>browser_safari := True, config := [''autoRegister'' \<mapsto> JBool False]\<rparr>))
      ''autoRegister'' = JBool False
   \<and> \<not> truthy (js_get (config (env0\<lparr>browser_safari := True,
          config := [''autoRegister'' \<mapsto> JBool False]\<rparr>)) ''subdomainName'')
   \<and> snd (internalInit
        (env0\<lparr>browser_safari := True, config := [''autoRegister'' \<mapsto> JBool False]\<rparr>)
        outcomes0 state0) =
       ([LogDebug ''Called internalInit()'', DatabaseGet ''Ids'' ''appId'',
         LogDebug ''On Safari and autoregister is false, skipping sessionInit().'',
         EventTrigger SDK_INITIALIZED],
        [])"
  by (simp add: internalInit_def Let_def env0_def state0_def item_truthy_def js_get_def)

end
